theory Spec2Isabelle
  imports Main
begin

section \<open>JavaScript values\<close>

text \<open>
  The cloud-function event, the parsed request body, the variables and the data payload of
  a result are untyped JavaScript values. Numbers are represented by integers: the handlers
  never compute with them.
\<close>

datatype jsval =
    JUndefined
  | JNull
  | JBool bool
  | JNum int
  | JStr string
  | JArr "jsval list"
  | JObj "(string \<times> jsval) list"

text \<open>The \<^verbatim>\<open>typeof\<close> operator; \<^verbatim>\<open>typeof null\<close> is \<^verbatim>\<open>'object'\<close>, as for arrays.\<close>

fun typeof :: "jsval \<Rightarrow> string" where
  "typeof JUndefined = ''undefined''"
| "typeof JNull = ''object''"
| "typeof (JBool b) = ''boolean''"
| "typeof (JNum n) = ''number''"
| "typeof (JStr s) = ''string''"
| "typeof (JArr xs) = ''object''"
| "typeof (JObj fs) = ''object''"

text \<open>\<^verbatim>\<open>v == null\<close> holds of \<^verbatim>\<open>null\<close> and \<^verbatim>\<open>undefined\<close> only.\<close>

fun nullish :: "jsval \<Rightarrow> bool" where
  "nullish JUndefined = True"
| "nullish JNull = True"
| "nullish _ = False"

fun truthy :: "jsval \<Rightarrow> bool" where
  "truthy JUndefined = False"
| "truthy JNull = False"
| "truthy (JBool b) = b"
| "truthy (JNum n) = (n \<noteq> 0)"
| "truthy (JStr s) = (s \<noteq> [])"
| "truthy (JArr xs) = True"
| "truthy (JObj fs) = True"

fun as_string :: "jsval \<Rightarrow> string option" where
  "as_string (JStr s) = Some s"
| "as_string _ = None"

section \<open>Errors and tagged failures\<close>

text \<open>
  An error object, with the five properties the handlers read from a caught value:
  \<^verbatim>\<open>status\<close>, \<^verbatim>\<open>statusCode\<close>, \<^verbatim>\<open>message\<close>, \<^verbatim>\<open>graphqlErrors\<close> and \<^verbatim>\<open>headers\<close>.
  \<open>None\<close> is an absent property. Every value thrown is taken to be such an object
  (nothing throws \<^verbatim>\<open>null\<close> or \<^verbatim>\<open>undefined\<close>).
\<close>

datatype error =
  Error (status: "nat option") (statusCode: "nat option") (message: string)
        (graphqlErrors: "error list option") (headers: "(string \<times> string) list option")

text \<open>\<^verbatim>\<open>new Error(message)\<close>: an error that carries a message and nothing else.\<close>

definition new_Error :: "string \<Rightarrow> error" where
  "new_Error msg = Error None None msg None None"

text \<open>The details object spread into a tagged failure: at the call sites it is empty, or
  holds \<^verbatim>\<open>graphqlErrors\<close>, or holds \<^verbatim>\<open>headers\<close>.\<close>

datatype errDtails =
    NoDetails
  | WithGraphqlErrors "error list"
  | WithHeaders "(string \<times> string) list"

text \<open>
  \<^verbatim>\<open>const httpError = (statusCode, message, errDtails = {}) =>
    ({ statusCode, message, ...errDtails })\<close>.
  The object has a \<^verbatim>\<open>statusCode\<close> property and no \<^verbatim>\<open>status\<close> property.
\<close>

fun httpError :: "nat \<Rightarrow> string \<Rightarrow> errDtails \<Rightarrow> error" where
  "httpError code msg NoDetails = Error None (Some code) msg None None"
| "httpError code msg (WithGraphqlErrors es) = Error None (Some code) msg (Some es) None"
| "httpError code msg (WithHeaders hs) = Error None (Some code) msg None (Some hs)"

text \<open>
  Reading a property: of \<^verbatim>\<open>null\<close> and \<^verbatim>\<open>undefined\<close> it throws a TypeError, of an object
  it yields the value stored under the key or \<^verbatim>\<open>undefined\<close>, of any other value it yields
  \<^verbatim>\<open>undefined\<close> (none of the keys read here is inherited from a prototype). The text of
  the TypeError is the runtime's.
\<close>

definition TypeError :: "string \<Rightarrow> error" where
  "TypeError k = new_Error (''Cannot read property '' @ k @ '' of undefined or null'')"

fun get_prop :: "jsval \<Rightarrow> string \<Rightarrow> error + jsval" where
  "get_prop JUndefined k = Inl (TypeError k)"
| "get_prop JNull k = Inl (TypeError k)"
| "get_prop (JObj fs) k = Inr (case map_of fs k of None \<Rightarrow> JUndefined | Some v \<Rightarrow> v)"
| "get_prop v k = Inr JUndefined"

text \<open>
  What a collaborator outside the engine throws (the body parser, the options function,
  the extensions function): an error object of which the handlers can read a
  \<^verbatim>\<open>status\<close> and a \<^verbatim>\<open>message\<close>. The properties \<^verbatim>\<open>graphqlErrors\<close> and
  \<^verbatim>\<open>headers\<close> are attached by \<^verbatim>\<open>httpError\<close> only.
\<close>

datatype exn = Exn "nat option" string

fun error_of :: "exn \<Rightarrow> error" where
  "error_of (Exn st msg) = Error st None msg None None"

section \<open>The GraphQL engine and the options\<close>

text \<open>
  The schema, the parsed document and the formatted error are the engine's own types
  (type variables \<open>'s\<close>, \<open>'d\<close>, \<open>'f\<close>); validation rules, resolvers and explorer
  options are only passed through.
\<close>

typedecl ValidationRule
typedecl GraphQLFieldResolver
typedecl GraphQLTypeResolver
typedecl GraphiQLOptions

datatype Source = Source string string

datatype OperationTypeNode = OpQuery | OpMutation | OpSubscription

fun operation_name :: "OperationTypeNode \<Rightarrow> string" where
  "operation_name OpQuery = ''query''"
| "operation_name OpMutation = ''mutation''"
| "operation_name OpSubscription = ''subscription''"

record ExecutionResult =
  data :: jsval
  errors :: "error list option"
  extensions :: "jsval option"

record GraphQLParams =
  query :: "string option"
  variables :: jsval
  operationName :: "string option"
  raw :: jsval

text \<open>An HTTP request, as far as the middleware reads it: the method
  (\<^verbatim>\<open>request.method\<close>), the URL's query
  parameters (\<^verbatim>\<open>new URLSearchParams(request.url.split('?')[1])\<close>), what the body parser
  returns or throws for it, and whether content negotiation picks HTML
  (\<^verbatim>\<open>accepts(request).types(['json', 'html']) === 'html'\<close>).\<close>

record Request =
  req_method :: string
  urlData :: "(string \<times> string) list"
  parseBody :: "exn + (string \<times> jsval) list"
  prefersHtml :: bool

datatype ContextValue = Value jsval | TheRequest Request

text \<open>The argument of the executor: schema, document, rootValue, contextValue,
  variableValues, operationName, fieldResolver, typeResolver.\<close>

datatype ('s, 'd) ExecutionArgs =
  ExecutionArgs 's 'd jsval ContextValue jsval "string option"
                "GraphQLFieldResolver option" "GraphQLTypeResolver option"

text \<open>The argument of the extensions function: document, variables, operationName,
  result, context.\<close>

datatype 'd RequestInfo =
  RequestInfo 'd jsval "string option" ExecutionResult ContextValue

text \<open>The functions imported from the engine. \<^verbatim>\<open>parse\<close> and \<^verbatim>\<open>execute\<close> may throw,
  as the handlers expect of them; \<^verbatim>\<open>validateSchema\<close> and \<^verbatim>\<open>validate\<close> return the
  list of errors they found. \<^verbatim>\<open>getOperationAST\<close> returns the operation it finds, of
  which only the kind is read, or \<^verbatim>\<open>null\<close>. The caller's replacements for these functions
  have the same types.\<close>

record ('s, 'd, 'f) graphql =
  parse :: "Source \<Rightarrow> error + 'd"
  validate :: "'s \<Rightarrow> 'd \<Rightarrow> ValidationRule list \<Rightarrow> error list"
  execute :: "('s, 'd) ExecutionArgs \<Rightarrow> error + ExecutionResult"
  formatError :: "error \<Rightarrow> 'f"
  validateSchema :: "'s \<Rightarrow> error list"
  getOperationAST :: "'d \<Rightarrow> string option \<Rightarrow> OperationTypeNode option"
  specifiedRules :: "ValidationRule list"

text \<open>The options both handlers share; \<open>None\<close> is an option left out. The context
  value is any JavaScript value, \<^verbatim>\<open>undefined\<close> when left out.\<close>

record ('s, 'd, 'f) OptionsData =
  schema :: "'s option"
  contextOpt :: jsval
  rootValue :: jsval
  prettyOpt :: "bool option"
  validationRules :: "ValidationRule list option"
  customValidateFn :: "('s \<Rightarrow> 'd \<Rightarrow> ValidationRule list \<Rightarrow> error list) option"
  customExecuteFn :: "(('s, 'd) ExecutionArgs \<Rightarrow> error + ExecutionResult) option"
  customFormatErrorFn :: "(error \<Rightarrow> 'f) option"
  customParseFn :: "(Source \<Rightarrow> error + 'd) option"
  formatErrorOpt :: "(error \<Rightarrow> 'f) option"
  extensionsOpt :: "('d RequestInfo \<Rightarrow> exn + jsval) option"
  fieldResolver :: "GraphQLFieldResolver option"
  typeResolver :: "GraphQLTypeResolver option"

record ('s, 'd, 'f) WXOptions = "('s, 'd, 'f) OptionsData" +
  wxParams :: jsval

text \<open>The functions a handler works with: the caller's, or else the engine's
  (\<^verbatim>\<open>optionsData.customParseFn ?? parse\<close>, and so on); the validation rules are the
  specified ones followed by the caller's.\<close>

definition parseFn ::
  "('s, 'd, 'f) graphql \<Rightarrow> ('s, 'd, 'f, 'z) OptionsData_scheme \<Rightarrow> Source \<Rightarrow> error + 'd" where
  "parseFn g optionsData = (case customParseFn optionsData of None \<Rightarrow> parse g | Some f \<Rightarrow> f)"

definition executeFn ::
  "('s, 'd, 'f) graphql \<Rightarrow> ('s, 'd, 'f, 'z) OptionsData_scheme
     \<Rightarrow> ('s, 'd) ExecutionArgs \<Rightarrow> error + ExecutionResult" where
  "executeFn g optionsData =
     (case customExecuteFn optionsData of None \<Rightarrow> execute g | Some f \<Rightarrow> f)"

definition validateFn ::
  "('s, 'd, 'f) graphql \<Rightarrow> ('s, 'd, 'f, 'z) OptionsData_scheme
     \<Rightarrow> 's \<Rightarrow> 'd \<Rightarrow> ValidationRule list \<Rightarrow> error list" where
  "validateFn g optionsData =
     (case customValidateFn optionsData of None \<Rightarrow> validate g | Some f \<Rightarrow> f)"

definition allRules ::
  "('s, 'd, 'f) graphql \<Rightarrow> ('s, 'd, 'f, 'z) OptionsData_scheme \<Rightarrow> ValidationRule list" where
  "allRules g optionsData =
     specifiedRules g @ (case validationRules optionsData of None \<Rightarrow> [] | Some rs \<Rightarrow> rs)"

text \<open>\<^verbatim>\<open>optionsData.customFormatErrorFn ?? optionsData.formatError ?? formatErrorFn\<close>,
  the last being the function selected so far.\<close>

definition selectFormatErrorFn ::
  "('s, 'd, 'f, 'z) OptionsData_scheme \<Rightarrow> (error \<Rightarrow> 'f) \<Rightarrow> error \<Rightarrow> 'f" where
  "selectFormatErrorFn optionsData current =
     (case customFormatErrorFn optionsData of
        Some f \<Rightarrow> f
      | None \<Rightarrow> (case formatErrorOpt optionsData of Some f \<Rightarrow> f | None \<Rightarrow> current))"

text \<open>The calls made to the engine and to the caller's functions, in the order made.\<close>

datatype call =
    CallValidateSchema
  | CallParse
  | CallValidate
  | CallGetOperationAST
  | CallExecute
  | CallExtensions

section \<open>The cloud-function handler\<close>

text \<open>
  \<^verbatim>\<open>getGraphQLParams(param)\<close> of the cloud-function variant. \<^verbatim>\<open>JSON.parse\<close> is the
  runtime's and is a parameter; it returns the decoded value or throws.
\<close>

definition getGraphQLParams :: "(string \<Rightarrow> error + jsval) \<Rightarrow> jsval \<Rightarrow> error + GraphQLParams" where
  "getGraphQLParams JSON_parse param =
    (case get_prop param ''query'' of
       Inl e \<Rightarrow> Inl e
     | Inr query0 \<Rightarrow>
        let query1 = (if typeof query0 \<noteq> ''string'' then None else as_string query0) in
        (case get_prop param ''variables'' of
           Inl e \<Rightarrow> Inl e
         | Inr variables0 \<Rightarrow>
            (case (case variables0 of
                     JStr s \<Rightarrow>
                       (case JSON_parse s of
                          Inl err \<Rightarrow> Inl (httpError 400 ''Variables are invalid JSON.'' NoDetails)
                        | Inr v \<Rightarrow> Inr v)
                   | _ \<Rightarrow> if typeof variables0 \<noteq> ''object'' then Inr JNull else Inr variables0) of
               Inl e \<Rightarrow> Inl e
             | Inr variables1 \<Rightarrow>
                (case get_prop param ''operationName'' of
                   Inl e \<Rightarrow> Inl e
                 | Inr operationName0 \<Rightarrow>
                    let operationName1 =
                          (if typeof operationName0 \<noteq> ''string'' then None
                           else as_string operationName0) in
                    (case get_prop param ''raw'' of
                       Inl e \<Rightarrow> Inl e
                     | Inr raw0 \<Rightarrow>
                        Inr \<lparr>query = query1, variables = variables1,
                             operationName = operationName1, raw = raw0\<rparr>)))))"

text \<open>
  The body of the \<^verbatim>\<open>try\<close> block of \<^verbatim>\<open>graphqlWXServer\<close>: the calls it made, and the
  value it threw (\<open>Inl\<close>) or the executor's result (\<open>Inr\<close>). The formatting function and
  the pretty flag are selected as in the source and then not used.
\<close>

definition graphqlWXServer_try ::
  "(string \<Rightarrow> error + jsval) \<Rightarrow> ('s, 'd, 'f) graphql \<Rightarrow> ('s, 'd, 'f) WXOptions
     \<Rightarrow> call list \<times> (error + ExecutionResult)" where
  "graphqlWXServer_try JSON_parse g options =
    (case getGraphQLParams JSON_parse (wxParams options) of
       Inl e \<Rightarrow> ([], Inl e)
     | Inr params \<Rightarrow>
        let pretty = (case prettyOpt options of None \<Rightarrow> False | Some b \<Rightarrow> b);
            formatErrorFn = selectFormatErrorFn options (formatError g)
        in
        (case schema options of
           None \<Rightarrow>
             ([], Inl (httpError 500 ''GraphQL middleware options must contain a schema.''
                         NoDetails))
         | Some schema1 \<Rightarrow>
            (case query params of
               None \<Rightarrow> ([], Inl (httpError 400 ''Must provide query string.'' NoDetails))
             | Some query1 \<Rightarrow>
                let schemaValidationErrors = validateSchema g schema1 in
                if length schemaValidationErrors > 0 then
                  ([CallValidateSchema],
                   Inl (httpError 500 ''GraphQL schema validation error.''
                          (WithGraphqlErrors schemaValidationErrors)))
                else
                  (case parseFn g options (Source query1 ''GraphQL request'') of
                     Inl syntaxError \<Rightarrow>
                       ([CallValidateSchema, CallParse],
                        Inl (httpError 400 ''GraphQL syntax error.''
                               (WithGraphqlErrors [syntaxError])))
                   | Inr documentAST \<Rightarrow>
                       let validationErrors =
                             validateFn g options schema1 documentAST (allRules g options) in
                       if length validationErrors > 0 then
                         ([CallValidateSchema, CallParse, CallValidate],
                          Inl (httpError 400 ''GraphQL validation error.''
                                 (WithGraphqlErrors validationErrors)))
                       else
                         (case executeFn g options
                                 (ExecutionArgs schema1 documentAST (rootValue options)
                                    (Value (contextOpt options)) (variables params)
                                    (operationName params) (fieldResolver options)
                                    (typeResolver options)) of
                            Inl contextError \<Rightarrow>
                              ([CallValidateSchema, CallParse, CallValidate, CallExecute],
                               Inl (httpError 400 ''GraphQL execution context error.''
                                      (WithGraphqlErrors [contextError])))
                          | Inr result \<Rightarrow>
                              ([CallValidateSchema, CallParse, CallValidate, CallExecute],
                               Inr result))))))"

text \<open>
  \<^verbatim>\<open>graphqlWXServer(options)\<close>: the \<^verbatim>\<open>catch\<close> turns whatever was thrown into
  \<^verbatim>\<open>{ data: undefined, errors: error.graphqlErrors || [error] }\<close> (an array is truthy,
  also when empty), and the result is returned as it is. \<open>Inl\<close> would be a rejected
  promise.
\<close>

definition graphqlWXServer ::
  "(string \<Rightarrow> error + jsval) \<Rightarrow> ('s, 'd, 'f) graphql \<Rightarrow> ('s, 'd, 'f) WXOptions
     \<Rightarrow> error + ExecutionResult" where
  "graphqlWXServer JSON_parse g options =
    (case snd (graphqlWXServer_try JSON_parse g options) of
       Inr result \<Rightarrow> Inr result
     | Inl err \<Rightarrow>
        Inr \<lparr>data = JUndefined,
             errors = Some (case graphqlErrors err of Some es \<Rightarrow> es | None \<Rightarrow> [err]),
             extensions = None\<rparr>)"

section \<open>The HTTP middleware\<close>

record 'f FormattedExecutionResult =
  fdata :: jsval
  ferrors :: "'f list option"
  fextensions :: "jsval option"

text \<open>What has been written to the response: nothing yet, a value handed to
  \<^verbatim>\<open>response.json\<close>, or a payload passed to \<^verbatim>\<open>response.end\<close>.\<close>

datatype 'f Body = NotSent | JsonBody "'f FormattedExecutionResult" | EndBody string

record 'f Response =
  res_statusCode :: nat
  res_headers :: "string \<rightharpoonup> string"
  has_json :: bool
  sent :: "'f Body"

definition setHeader :: "'f Response \<Rightarrow> string \<Rightarrow> string \<Rightarrow> 'f Response" where
  "setHeader response key val = response\<lparr>res_headers := (res_headers response)(key \<mapsto> val)\<rparr>"

text \<open>\<^verbatim>\<open>String(n)\<close> of a length: its decimal digits.\<close>

fun String_nat :: "nat \<Rightarrow> string" where
  "String_nat n =
     (if n < 10 then [char_of (48 + n)]
      else String_nat (n div 10) @ [char_of (48 + n mod 10)])"

declare String_nat.simps [simp del]

text \<open>The data handed to the explorer's renderer: the request parameters, when there are
  any, and the formatted result, when there is one.\<close>

datatype 'f GraphiQLData = GraphiQLData "GraphQLParams option" "'f FormattedExecutionResult option"

text \<open>What the middleware takes from the runtime and from the explorer component:
  \<^verbatim>\<open>JSON.parse\<close>, \<^verbatim>\<open>JSON.stringify(value, null, indent)\<close> and
  \<^verbatim>\<open>renderGraphiQL(data, options)\<close>.\<close>

record 'f runtime =
  JSON_parse :: "string \<Rightarrow> error + jsval"
  JSON_stringify :: "'f FormattedExecutionResult \<Rightarrow> nat \<Rightarrow> string"
  renderGraphiQL :: "'f GraphiQLData \<Rightarrow> GraphiQLOptions option \<Rightarrow> string"

text \<open>\<^verbatim>\<open>sendResponse(response, type, data)\<close>; a string is its UTF-8 bytes.\<close>

definition sendResponse :: "'f Response \<Rightarrow> string \<Rightarrow> string \<Rightarrow> 'f Response" where
  "sendResponse response type payload =
    (let r1 = setHeader response ''Content-Type'' (type @ ''; charset=utf-8'');
         r2 = setHeader r1 ''Content-Length'' (String_nat (length payload))
     in r2\<lparr>sent := EndBody payload\<rparr>)"

definition respondWithGraphiQL ::
  "'f runtime \<Rightarrow> 'f Response \<Rightarrow> GraphiQLOptions option \<Rightarrow> GraphQLParams option
     \<Rightarrow> 'f FormattedExecutionResult option \<Rightarrow> 'f Response" where
  "respondWithGraphiQL rt response opts params1 result =
    sendResponse response ''text/html'' (renderGraphiQL rt (GraphiQLData params1 result) opts)"

text \<open>The \<^verbatim>\<open>graphiql\<close> option is a boolean or an object of explorer options.\<close>

datatype GraphiQLSetting = GraphiQLBool bool | GraphiQLObject GraphiQLOptions

record ('s, 'd, 'f) HTTPOptionsData = "('s, 'd, 'f) OptionsData" +
  graphiql :: "GraphiQLSetting option"

text \<open>The options are an object, or a function of the request, the response and the
  parameters that returns one, or throws, or returns something that is no object
  (\<open>None\<close>).\<close>

datatype ('s, 'd, 'f) Options =
    OptionsObject "('s, 'd, 'f) HTTPOptionsData"
  | OptionsFunction "Request \<Rightarrow> 'f Response \<Rightarrow> GraphQLParams option
                       \<Rightarrow> exn + ('s, 'd, 'f) HTTPOptionsData option"

text \<open>\<^verbatim>\<open>resolveOptions(requestParams)\<close>. The deprecation notice it writes to the console
  is no part of the response and is left out.\<close>

definition resolveOptions ::
  "('s, 'd, 'f) Options \<Rightarrow> Request \<Rightarrow> 'f Response \<Rightarrow> GraphQLParams option
     \<Rightarrow> error + ('s, 'd, 'f) HTTPOptionsData" where
  "resolveOptions options request response requestParams =
    (case (case options of
             OptionsFunction f \<Rightarrow> f request response requestParams
           | OptionsObject od \<Rightarrow> Inr (Some od)) of
       Inl e \<Rightarrow> Inl (error_of e)
     | Inr None \<Rightarrow>
         Inl (new_Error ''GraphQL middleware option function must return an options object or a promise which will be resolved to an options object.'')
     | Inr (Some optionsResult) \<Rightarrow> Inr optionsResult)"

text \<open>\<^verbatim>\<open>urlData.get(k) ?? bodyData[k]\<close>: the URL parameter when there is one, else the
  body's field, \<^verbatim>\<open>undefined\<close> when the body has none.\<close>

definition url_or_body :: "Request \<Rightarrow> (string \<times> jsval) list \<Rightarrow> string \<Rightarrow> jsval" where
  "url_or_body request bodyData k =
    (case map_of (urlData request) k of
       Some s \<Rightarrow> JStr s
     | None \<Rightarrow> (case map_of bodyData k of None \<Rightarrow> JUndefined | Some v \<Rightarrow> v))"

text \<open>\<^verbatim>\<open>getGraphQLParams(request)\<close> of the HTTP variant.\<close>

definition getGraphQLParams_http ::
  "(string \<Rightarrow> error + jsval) \<Rightarrow> Request \<Rightarrow> error + GraphQLParams" where
  "getGraphQLParams_http JSON_parse1 request =
    (case parseBody request of
       Inl e \<Rightarrow> Inl (error_of e)
     | Inr bodyData \<Rightarrow>
        let query0 = url_or_body request bodyData ''query'';
            query1 = (if typeof query0 \<noteq> ''string'' then None else as_string query0);
            variables0 = url_or_body request bodyData ''variables''
        in
        (case (case variables0 of
                 JStr s \<Rightarrow>
                   (case JSON_parse1 s of
                      Inl err \<Rightarrow> Inl (httpError 400 ''Variables are invalid JSON.'' NoDetails)
                    | Inr v \<Rightarrow> Inr v)
               | _ \<Rightarrow> if typeof variables0 \<noteq> ''object'' then Inr JNull else Inr variables0) of
           Inl e \<Rightarrow> Inl e
         | Inr variables1 \<Rightarrow>
            let operationName0 = url_or_body request bodyData ''operationName'';
                operationName1 = (if typeof operationName0 \<noteq> ''string'' then None
                                  else as_string operationName0);
                raw1 = (case map_of (urlData request) ''raw'' of
                          Some s \<Rightarrow> True
                        | None \<Rightarrow> (case map_of bodyData ''raw'' of
                                     None \<Rightarrow> False
                                   | Some v \<Rightarrow> v \<noteq> JUndefined))
            in Inr \<lparr>query = query1, variables = variables1,
                    operationName = operationName1, raw = JBool raw1\<rparr>))"

definition canDisplayGraphiQL :: "Request \<Rightarrow> GraphQLParams \<Rightarrow> bool" where
  "canDisplayGraphiQL request params1 \<longleftrightarrow> \<not> truthy (raw params1) \<and> prefersHtml request"

text \<open>The variables declared above the \<^verbatim>\<open>try\<close> block, which the code after the
  \<^verbatim>\<open>catch\<close> reads, and the calls made so far.\<close>

record 'f Scope =
  params :: "GraphQLParams option"
  showGraphiQL :: bool
  graphiqlOptions :: "GraphiQLOptions option"
  formatErrorFn :: "error \<Rightarrow> 'f"
  pretty :: bool
  calls :: "call list"

text \<open>How the \<^verbatim>\<open>try\<close> block ends: it throws, it returns from the middleware with the
  explorer page written, or it falls through with a result.\<close>

datatype 'f Completion = Thrown error | Returned "'f Response" | Fell ExecutionResult


text \<open>\<^verbatim>\<open>optionsData.graphiql ?? false\<close>.\<close>

definition graphiqlSetting :: "('s, 'd, 'f) HTTPOptionsData \<Rightarrow> GraphiQLSetting" where
  "graphiqlSetting optionsData =
     (case graphiql optionsData of None \<Rightarrow> GraphiQLBool False | Some x \<Rightarrow> x)"

text \<open>\<^verbatim>\<open>optionsData.context ?? request\<close>.\<close>

definition contextFor :: "('s, 'd, 'f) HTTPOptionsData \<Rightarrow> Request \<Rightarrow> ContextValue" where
  "contextFor optionsData request =
     (if nullish (contextOpt optionsData) then TheRequest request
      else Value (contextOpt optionsData))"

text \<open>
  The \<^verbatim>\<open>try\<close> block of \<^verbatim>\<open>graphqlMiddleware\<close>. On a GET request the operation is
  looked up, and an operation that is no query is kept in \<open>refused\<close>.
\<close>

definition graphqlMiddleware_try ::
  "'f runtime \<Rightarrow> ('s, 'd, 'f) graphql \<Rightarrow> ('s, 'd, 'f) Options \<Rightarrow> Request \<Rightarrow> 'f Response
     \<Rightarrow> 'f Scope \<times> 'f Completion" where
  "graphqlMiddleware_try rt g options request response =
    (let sc0 = \<lparr>params = None, showGraphiQL = False, graphiqlOptions = None,
                 formatErrorFn = formatError g, pretty = False, calls = []\<rparr>
     in
     case getGraphQLParams_http (JSON_parse rt) request of
       Inl err \<Rightarrow>
         (case resolveOptions options request response None of
            Inl e \<Rightarrow> (sc0, Thrown e)
          | Inr optionsData \<Rightarrow>
             (sc0\<lparr>pretty := (case prettyOpt optionsData of None \<Rightarrow> False | Some b \<Rightarrow> b),
                  formatErrorFn := selectFormatErrorFn optionsData (formatErrorFn sc0)\<rparr>,
              Thrown err))
     | Inr params1 \<Rightarrow>
        let sc1 = sc0\<lparr>params := Some params1\<rparr> in
        (case resolveOptions options request response (Some params1) of
           Inl e \<Rightarrow> (sc1, Thrown e)
         | Inr optionsData \<Rightarrow>
            let sc2 = sc1\<lparr>pretty := (case prettyOpt optionsData of None \<Rightarrow> False | Some b \<Rightarrow> b),
                          formatErrorFn := selectFormatErrorFn optionsData (formatErrorFn sc1)\<rparr>
            in
            (case schema optionsData of
               None \<Rightarrow>
                 (sc2, Thrown (httpError 500 ''GraphQL middleware options must contain a schema.''
                                 NoDetails))
             | Some schema1 \<Rightarrow>
                if req_method request \<noteq> ''GET'' \<and> req_method request \<noteq> ''POST'' then
                  (sc2, Thrown (httpError 405 ''GraphQL only supports GET and POST requests.''
                                  (WithHeaders [(''Allow'', ''GET, POST'')])))
                else
                  let sc3 = sc2\<lparr>showGraphiQL :=
                                   canDisplayGraphiQL request params1
                                   \<and> graphiqlSetting optionsData \<noteq> GraphiQLBool False,
                                 graphiqlOptions :=
                                   (case graphiqlSetting optionsData of
                                      GraphiQLObject opts \<Rightarrow> Some opts
                                    | GraphiQLBool b \<Rightarrow> None)\<rparr>
                  in
                  (case query params1 of
                     None \<Rightarrow>
                       if showGraphiQL sc3 then
                         (sc3, Returned (respondWithGraphiQL rt response (graphiqlOptions sc3)
                                           None None))
                       else (sc3, Thrown (httpError 400 ''Must provide query string.'' NoDetails))
                   | Some query1 \<Rightarrow>
                      let schemaValidationErrors = validateSchema g schema1 in
                      if length schemaValidationErrors > 0 then
                        (sc3\<lparr>calls := [CallValidateSchema]\<rparr>,
                         Thrown (httpError 500 ''GraphQL schema validation error.''
                                   (WithGraphqlErrors schemaValidationErrors)))
                      else
                        (case parseFn g optionsData (Source query1 ''GraphQL request'') of
                           Inl syntaxError \<Rightarrow>
                             (sc3\<lparr>calls := [CallValidateSchema, CallParse]\<rparr>,
                              Thrown (httpError 400 ''GraphQL syntax error.''
                                        (WithGraphqlErrors [syntaxError])))
                         | Inr documentAST \<Rightarrow>
                            let validationErrors =
                                  validateFn g optionsData schema1 documentAST
                                    (allRules g optionsData)
                            in
                            if length validationErrors > 0 then
                              (sc3\<lparr>calls := [CallValidateSchema, CallParse, CallValidate]\<rparr>,
                               Thrown (httpError 400 ''GraphQL validation error.''
                                         (WithGraphqlErrors validationErrors)))
                            else
                              let cs = [CallValidateSchema, CallParse, CallValidate]
                                       @ (if req_method request = ''GET'' then [CallGetOperationAST]
                                          else []);
                                  refused =
                                    (if req_method request = ''GET'' then
                                       (case getOperationAST g documentAST (operationName params1) of
                                          Some operation \<Rightarrow>
                                            if operation \<noteq> OpQuery then Some operation else None
                                        | None \<Rightarrow> None)
                                     else None)
                              in
                              (case refused of
                                 Some operation \<Rightarrow>
                                   if showGraphiQL sc3 then
                                     (sc3\<lparr>calls := cs\<rparr>,
                                      Returned (respondWithGraphiQL rt response
                                                  (graphiqlOptions sc3) (Some params1) None))
                                   else
                                     (sc3\<lparr>calls := cs\<rparr>,
                                      Thrown (httpError 405
                                                (''Can only perform a '' @ operation_name operation
                                                 @ '' operation from a POST request.'')
                                                (WithHeaders [(''Allow'', ''POST'')])))
                               | None \<Rightarrow>
                                  (case executeFn g optionsData
                                          (ExecutionArgs schema1 documentAST (rootValue optionsData)
                                             (contextFor optionsData request) (variables params1)
                                             (operationName params1) (fieldResolver optionsData)
                                             (typeResolver optionsData)) of
                                     Inl contextError \<Rightarrow>
                                       (sc3\<lparr>calls := cs @ [CallExecute]\<rparr>,
                                        Thrown (httpError 400 ''GraphQL execution context error.''
                                                  (WithGraphqlErrors [contextError])))
                                   | Inr result \<Rightarrow>
                                      (case extensionsOpt optionsData of
                                         None \<Rightarrow> (sc3\<lparr>calls := cs @ [CallExecute]\<rparr>, Fell result)
                                       | Some extensionsFn \<Rightarrow>
                                          (case extensionsFn
                                                  (RequestInfo documentAST (variables params1)
                                                     (operationName params1) result
                                                     (contextFor optionsData request)) of
                                             Inl e \<Rightarrow>
                                               (sc3\<lparr>calls := cs @ [CallExecute, CallExtensions]\<rparr>,
                                                Thrown (error_of e))
                                           | Inr ext \<Rightarrow>
                                               (sc3\<lparr>calls := cs @ [CallExecute, CallExtensions]\<rparr>,
                                                Fell (if \<not> nullish ext
                                                      then result\<lparr>extensions := Some ext\<rparr>
                                                      else result)))))))))))"

text \<open>
  The \<^verbatim>\<open>catch\<close> block: the status is \<^verbatim>\<open>error.status ?? 500\<close>, the headers of the
  error are set on the response, and the result is
  \<^verbatim>\<open>{ data: undefined, errors: error.graphqlErrors ?? [error] }\<close>.
\<close>

definition graphqlMiddleware_catch ::
  "'f Response \<Rightarrow> error \<Rightarrow> 'f Response \<times> ExecutionResult" where
  "graphqlMiddleware_catch response err =
    (let r1 = response\<lparr>res_statusCode := (case status err of Some s \<Rightarrow> s | None \<Rightarrow> 500)\<rparr>;
         r2 = (case headers err of
                 Some hs \<Rightarrow> fold (\<lambda>(key, val) r. setHeader r key val) hs r1
               | None \<Rightarrow> r1)
     in (r2, \<lparr>data = JUndefined,
              errors = Some (case graphqlErrors err of Some es \<Rightarrow> es | None \<Rightarrow> [err]),
              extensions = None\<rparr>))"

text \<open>\<^verbatim>\<open>{ ...result, errors: result.errors?.map(formatErrorFn) }\<close>.\<close>

definition formatted :: "(error \<Rightarrow> 'f) \<Rightarrow> ExecutionResult \<Rightarrow> 'f FormattedExecutionResult" where
  "formatted f result =
     \<lparr>fdata = data result, ferrors = map_option (map f) (errors result),
      fextensions = extensions result\<rparr>"

text \<open>The code after the \<^verbatim>\<open>catch\<close>: the generic status, the formatting of the errors,
  and the response (the explorer page, \<^verbatim>\<open>response.json\<close>, or \<^verbatim>\<open>sendResponse\<close>).\<close>

definition graphqlMiddleware_respond ::
  "'f runtime \<Rightarrow> 'f Scope \<Rightarrow> 'f Response \<Rightarrow> ExecutionResult \<Rightarrow> 'f Response" where
  "graphqlMiddleware_respond rt sc response result =
    (let response1 = (if res_statusCode response = 200 \<and> nullish (data result)
                      then response\<lparr>res_statusCode := 500\<rparr> else response);
         formattedResult = formatted (formatErrorFn sc) result
     in
     if showGraphiQL sc then
       respondWithGraphiQL rt response1 (graphiqlOptions sc) (params sc) (Some formattedResult)
     else if \<not> pretty sc \<and> has_json response1 then response1\<lparr>sent := JsonBody formattedResult\<rparr>
     else sendResponse response1 ''application/json''
            (JSON_stringify rt formattedResult (if pretty sc then 2 else 0)))"

text \<open>\<^verbatim>\<open>graphqlMiddleware(request, response)\<close>: the response as the middleware leaves
  it. \<open>Inl\<close> would be a rejected promise.\<close>

definition graphqlMiddleware ::
  "'f runtime \<Rightarrow> ('s, 'd, 'f) graphql \<Rightarrow> ('s, 'd, 'f) Options \<Rightarrow> Request \<Rightarrow> 'f Response
     \<Rightarrow> error + 'f Response" where
  "graphqlMiddleware rt g options request response =
    (case graphqlMiddleware_try rt g options request response of
       (sc, Returned r) \<Rightarrow> Inr r
     | (sc, Thrown err) \<Rightarrow>
         (case graphqlMiddleware_catch response err of
            (response1, result) \<Rightarrow> Inr (graphqlMiddleware_respond rt sc response1 result))
     | (sc, Fell result) \<Rightarrow> Inr (graphqlMiddleware_respond rt sc response result))"

section \<open>What a response carries\<close>

text \<open>A response carries a formatted result as JSON when the result was handed to
  \<^verbatim>\<open>response.json\<close>, or was serialized (indented or not) and sent as
  \<^verbatim>\<open>application/json\<close>.\<close>

definition sends_json ::
  "'f runtime \<Rightarrow> 'f Response \<Rightarrow> 'f FormattedExecutionResult \<Rightarrow> bool" where
  "sends_json rt r fr \<longleftrightarrow>
     sent r = JsonBody fr
     \<or> (res_headers r ''Content-Type'' = Some ''application/json; charset=utf-8''
        \<and> (sent r = EndBody (JSON_stringify rt fr 0) \<or> sent r = EndBody (JSON_stringify rt fr 2)))"

text \<open>A response carries the explorer page when the page rendered from the given data was
  sent as \<^verbatim>\<open>text/html\<close>.\<close>

definition sends_explorer ::
  "'f runtime \<Rightarrow> 'f Response \<Rightarrow> 'f GraphiQLData \<Rightarrow> GraphiQLOptions option \<Rightarrow> bool" where
  "sends_explorer rt r d opts \<longleftrightarrow>
     res_headers r ''Content-Type'' = Some ''text/html; charset=utf-8''
     \<and> sent r = EndBody (renderGraphiQL rt d opts)"

text \<open>The result built at the pipeline boundary from a caught error.\<close>

definition envelope :: "error \<Rightarrow> ExecutionResult" where
  "envelope err =
     \<lparr>data = JUndefined,
      errors = Some (case graphqlErrors err of Some es \<Rightarrow> es | None \<Rightarrow> [err]),
      extensions = None\<rparr>"

text \<open>The place of a call in the pipeline.\<close>

fun step_index :: "call \<Rightarrow> nat" where
  "step_index CallValidateSchema = 0"
| "step_index CallParse = 1"
| "step_index CallValidate = 2"
| "step_index CallGetOperationAST = 3"
| "step_index CallExecute = 4"
| "step_index CallExtensions = 5"

section \<open>Example inputs\<close>

text \<open>A decoder that knows two JSON texts, and an engine for a schema with one field
  \<^verbatim>\<open>hello\<close> and one mutation \<^verbatim>\<open>bump\<close>: its documents are the query texts, its
  formatted errors are the messages, and an operation is looked up by the name when one is
  given.\<close>

definition JSON_parse_ex :: "string \<Rightarrow> error + jsval" where
  "JSON_parse_ex s =
     (if s = ''5'' then Inr (JNum 5)
      else if s = ''{}'' then Inr (JObj [])
      else Inl (new_Error ''Unexpected end of JSON input''))"

definition engine_ex :: "(unit, string, string) graphql" where
  "engine_ex =
     \<lparr>parse = (\<lambda>src. case src of Source body name \<Rightarrow>
                 if body = ''{'' then Inl (new_Error ''Syntax Error: Expected Name, found <EOF>.'')
                 else Inr body),
      validate = (\<lambda>s d rules.
                 if d = ''{ hello }'' \<or> d = ''mutation { bump }'' \<or> d = ''mutation M { bump }''
                 then [] else [new_Error ''Cannot query field.'']),
      execute = (\<lambda>args. case args of ExecutionArgs s d root ctx vars name fr tr \<Rightarrow>
                 (case name of
                    Some n \<Rightarrow>
                      if d = ''mutation M { bump }'' \<and> n = ''M'' then
                        Inr \<lparr>data = JObj [(''bump'', JNum 1)], errors = None, extensions = None\<rparr>
                      else
                        Inr \<lparr>data = JUndefined, errors = Some [new_Error ''Unknown operation.''],
                             extensions = None\<rparr>
                  | None \<Rightarrow>
                      if d = ''{ hello }'' then
                        Inr \<lparr>data = JObj [(''hello'', JStr ''Hello world!'')],
                             errors = None, extensions = None\<rparr>
                      else
                        Inr \<lparr>data = JObj [(''bump'', JNum 1)], errors = None,
                             extensions = None\<rparr>)),
      formatError = message,
      validateSchema = (\<lambda>s. []),
      getOperationAST = (\<lambda>d name.
                 case name of
                   Some n \<Rightarrow>
                     if d = ''mutation M { bump }'' \<and> n = ''M'' then Some OpMutation else None
                 | None \<Rightarrow> if take 8 d = ''mutation'' then Some OpMutation else Some OpQuery),
      specifiedRules = []\<rparr>"

definition wx_options_ex :: "unit option \<Rightarrow> jsval \<Rightarrow> (unit, string, string) WXOptions" where
  "wx_options_ex sch event =
     \<lparr>schema = sch, contextOpt = JObj [(''id'', JStr ''graphqlWXServer'')],
      rootValue = JUndefined, prettyOpt = None, validationRules = None,
      customValidateFn = None, customExecuteFn = None, customFormatErrorFn = None,
      customParseFn = None, formatErrorOpt = None, extensionsOpt = None,
      fieldResolver = None, typeResolver = None, wxParams = event\<rparr>"

definition http_options_ex ::
  "unit option \<Rightarrow> GraphiQLSetting option \<Rightarrow> (unit, string, string) HTTPOptionsData" where
  "http_options_ex sch gi =
     \<lparr>schema = sch, contextOpt = JUndefined, rootValue = JUndefined, prettyOpt = None,
      validationRules = None, customValidateFn = None, customExecuteFn = None,
      customFormatErrorFn = None, customParseFn = None, formatErrorOpt = None,
      extensionsOpt = None, fieldResolver = None, typeResolver = None, graphiql = gi\<rparr>"

definition request_ex :: "string \<Rightarrow> (string \<times> string) list \<Rightarrow> bool \<Rightarrow> Request" where
  "request_ex m url html =
     \<lparr>req_method = m, urlData = url, parseBody = Inr [], prefersHtml = html\<rparr>"

definition response_ex :: "string Response" where
  "response_ex = \<lparr>res_statusCode = 200, res_headers = Map.empty, has_json = True, sent = NotSent\<rparr>"

definition runtime_ex :: "string runtime" where
  "runtime_ex =
     \<lparr>JSON_parse = JSON_parse_ex,
      JSON_stringify = (\<lambda>fr indent. ''{...}''),
      renderGraphiQL = (\<lambda>d opts. ''<!DOCTYPE html>'')\<rparr>"

section \<open>Basic facts\<close>

lemmas example_defs =
  JSON_parse_ex_def engine_ex_def wx_options_ex_def http_options_ex_def request_ex_def
  response_ex_def runtime_ex_def

lemmas selection_defs =
  parseFn_def executeFn_def validateFn_def allRules_def selectFormatErrorFn_def
  graphiqlSetting_def contextFor_def canDisplayGraphiQL_def

lemmas http_defs =
  graphqlMiddleware_def graphqlMiddleware_try_def graphqlMiddleware_catch_def
  graphqlMiddleware_respond_def getGraphQLParams_http_def resolveOptions_def url_or_body_def
  respondWithGraphiQL_def formatted_def sendResponse_def setHeader_def

lemmas wx_defs = graphqlWXServer_def graphqlWXServer_try_def getGraphQLParams_def



lemma get_prop_JStr_obj: "get_prop param k = Inr (JStr s) \<Longrightarrow> \<exists>fs. param = JObj fs"
  by (cases param) auto

lemma httpError_status [simp]: "status (httpError code msg d) = None"
  by (cases d) auto

lemma httpError_statusCode [simp]: "statusCode (httpError code msg d) = Some code"
  by (cases d) auto

lemma httpError_message [simp]: "message (httpError code msg d) = msg"
  by (cases d) auto

lemma setHeader_status [simp]: "res_statusCode (setHeader r k v) = res_statusCode r"
  by (simp add: setHeader_def)

lemma setHeader_sent [simp]: "sent (setHeader r k v) = sent r"
  by (simp add: setHeader_def)

lemma setHeader_headers [simp]: "res_headers (setHeader r k v) = (res_headers r)(k \<mapsto> v)"
  by (simp add: setHeader_def)

lemma sendResponse_status [simp]: "res_statusCode (sendResponse r t p) = res_statusCode r"
  by (simp add: sendResponse_def Let_def)

lemma sendResponse_sent [simp]: "sent (sendResponse r t p) = EndBody p"
  by (simp add: sendResponse_def Let_def)

lemma sendResponse_headers [simp]:
  "res_headers (sendResponse r t p) =
     (res_headers r)(''Content-Type'' \<mapsto> t @ ''; charset=utf-8'',
                     ''Content-Length'' \<mapsto> String_nat (length p))"
  by (simp add: sendResponse_def Let_def)

lemma respondWithGraphiQL_status [simp]:
  "res_statusCode (respondWithGraphiQL rt r opts ps fr) = res_statusCode r"
  by (simp add: respondWithGraphiQL_def)

lemma fold_setHeader_status [simp]:
  "res_statusCode (fold (\<lambda>(key, val) r. setHeader r key val) hs r) = res_statusCode r"
  by (induction hs arbitrary: r) auto

lemma fold_setHeader_sent [simp]:
  "sent (fold (\<lambda>(key, val) r. setHeader r key val) hs r) = sent r"
  by (induction hs arbitrary: r) auto

lemma respond_status:
  "res_statusCode (graphqlMiddleware_respond rt sc response result) =
     (if res_statusCode response = 200 \<and> nullish (data result) then 500
      else res_statusCode response)"
  by (simp add: graphqlMiddleware_respond_def Let_def)

lemma catch_status:
  "res_statusCode (fst (graphqlMiddleware_catch response err)) =
     (case status err of Some s \<Rightarrow> s | None \<Rightarrow> 500)"
  by (simp add: graphqlMiddleware_catch_def Let_def split: option.splits)


text \<open>Whatever code \<^verbatim>\<open>httpError\<close> was given, the \<^verbatim>\<open>catch\<close> block of the middleware
  sets the status 500: it reads \<^verbatim>\<open>status\<close>, and the failure has \<^verbatim>\<open>statusCode\<close>.\<close>

lemma tagged_failure_gets_500:
  "res_statusCode (fst (graphqlMiddleware_catch response (httpError code msg d))) = 500"
  by (simp add: catch_status)

section \<open>Status codes of the HTTP variant\<close>


text \<open>
  C9. After the pipeline, a response whose status is 200 gets the status 500 when the
  result has no data (\<^verbatim>\<open>null\<close> or \<^verbatim>\<open>undefined\<close>), and any other status, and the
  status 200 of a result with data, is kept. When the \<^verbatim>\<open>try\<close> block falls through with
  the result, this is the status of the response the middleware leaves.
\<close>

theorem generic_status_after_pipeline:
  "res_statusCode (graphqlMiddleware_respond rt sc response0 result0) =
     (if res_statusCode response0 = 200 \<and> nullish (data result0) then 500
      else res_statusCode response0)
   \<and> (graphqlMiddleware_try rt g options request response = (sc, Fell result) \<longrightarrow>
        (\<exists>r. graphqlMiddleware rt g options request response = Inr r
           \<and> res_statusCode r =
               (if res_statusCode response = 200 \<and> nullish (data result) then 500
                else res_statusCode response)))"
  by (simp add: graphqlMiddleware_def respond_status)

theorem generic_status_after_pipeline_witness:
  "(case graphqlMiddleware runtime_ex engine_ex (OptionsObject (http_options_ex (Some ()) None))
        (request_ex ''POST'' [(''query'', ''{ hello }'')] False) response_ex of
      Inr r \<Rightarrow> res_statusCode r | Inl e \<Rightarrow> 0) = 200"
  using generic_status_after_pipeline [where rt = runtime_ex and g = engine_ex
      and options = "OptionsObject (http_options_ex (Some ()) None)"
      and request = "request_ex ''POST'' [(''query'', ''{ hello }'')] False"
      and response = response_ex and response0 = response_ex
      and sc = "\<lparr>params = Some \<lparr>query = Some ''{ hello }'', variables = JNull,
                                operationName = None, raw = JBool False\<rparr>,
         showGraphiQL = False, graphiqlOptions = None, formatErrorFn = message, pretty = False,
         calls = [CallValidateSchema, CallParse, CallValidate, CallExecute]\<rparr>"
      and result = "\<lparr>data = JObj [(''hello'', JStr ''Hello world!'')], errors = None,
                     extensions = None\<rparr>"
      and result0 = "\<lparr>data = JNull, errors = None, extensions = None\<rparr>"]
  by (simp add: http_defs selection_defs example_defs Let_def)

section \<open>Formatting of errors\<close>

text \<open>In the HTTP variant the errors of the result go through the selected formatting
  function before the response is written.\<close>

lemma respond_sends:
  "if showGraphiQL sc
   then sends_explorer rt (graphqlMiddleware_respond rt sc response result)
          (GraphiQLData (params sc) (Some (formatted (formatErrorFn sc) result)))
          (graphiqlOptions sc)
   else sends_json rt (graphqlMiddleware_respond rt sc response result)
          (formatted (formatErrorFn sc) result)"
  by (simp add: graphqlMiddleware_respond_def sends_json_def sends_explorer_def
      respondWithGraphiQL_def Let_def)

text \<open>
  C7. The claim: in both variants every error of the result is mapped through the
  formatting function before the response is produced. The cloud-function handler, given a
  \<^verbatim>\<open>customFormatErrorFn\<close> and an event without a query, returns the failure itself in
  \<^verbatim>\<open>errors\<close>, not its formatted form.
\<close>

theorem wx_errors_not_formatted:
  "graphqlWXServer JSON_parse_ex engine_ex
     ((wx_options_ex (Some ()) (JObj []))\<lparr>customFormatErrorFn := Some (\<lambda>e. ''formatted'')\<rparr>)
   = Inr \<lparr>data = JUndefined,
          errors = Some [httpError 400 ''Must provide query string.'' NoDetails],
          extensions = None\<rparr>"
  by (simp add: wx_defs wx_options_ex_def Let_def)

section \<open>Parameter extraction\<close>



text \<open>
  C10. When the supplied variables value is a string that \<^verbatim>\<open>JSON.parse\<close> decodes,
  extraction returns, and the variables are the decoded value as it is, object or not: the
  text \<^verbatim>\<open>5\<close> gives the number 5.
\<close>

theorem variables_decoded_as_is:
  "(get_prop param ''variables'' = Inr (JStr s) \<and> decode s = Inr v \<longrightarrow>
      (\<exists>ps. getGraphQLParams decode param = Inr ps \<and> variables ps = v))
   \<and> (parseBody request = Inr bodyData \<and> url_or_body request bodyData ''variables'' = JStr s
        \<and> decode s = Inr v \<longrightarrow>
      (\<exists>ps. getGraphQLParams_http decode request = Inr ps \<and> variables ps = v))"
proof (intro conjI impI)
  assume a: "get_prop param ''variables'' = Inr (JStr s) \<and> decode s = Inr v"
  then obtain fs where "param = JObj fs" using get_prop_JStr_obj by blast
  with a show "\<exists>ps. getGraphQLParams decode param = Inr ps \<and> variables ps = v"
    by (simp add: getGraphQLParams_def)
next
  assume "parseBody request = Inr bodyData \<and> url_or_body request bodyData ''variables'' = JStr s
        \<and> decode s = Inr v"
  then show "\<exists>ps. getGraphQLParams_http decode request = Inr ps \<and> variables ps = v"
    by (simp add: getGraphQLParams_http_def Let_def)
qed

theorem variables_decoded_as_is_witness:
  "getGraphQLParams JSON_parse_ex (JObj [(''variables'', JStr ''5'')])
     = Inr \<lparr>query = None, variables = JNum 5, operationName = None, raw = JUndefined\<rparr>
   \<and> getGraphQLParams_http JSON_parse_ex (request_ex ''GET'' [(''variables'', ''5'')] False)
     = Inr \<lparr>query = None, variables = JNum 5, operationName = None, raw = JBool False\<rparr>"
  using variables_decoded_as_is [of "JObj [(''variables'', JStr ''5'')]" "''5''" JSON_parse_ex
      "JNum 5" "request_ex ''GET'' [(''variables'', ''5'')] False" "[]"]
  by (simp add: getGraphQLParams_def getGraphQLParams_http_def url_or_body_def JSON_parse_ex_def
      request_ex_def)

section \<open>Failures and the pipeline boundary\<close>

lemma error_of_graphqlErrors [simp]: "graphqlErrors (error_of x) = None"
  by (cases x) simp

lemma error_of_headers [simp]: "headers (error_of x) = None"
  by (cases x) simp







lemma middleware_thrown:
  "graphqlMiddleware_try rt g options request response = (sc, Thrown e) \<Longrightarrow>
   graphqlMiddleware rt g options request response
     = Inr (graphqlMiddleware_respond rt sc (fst (graphqlMiddleware_catch response e))
              (envelope e))"
  by (simp add: graphqlMiddleware_def graphqlMiddleware_catch_def envelope_def Let_def)

lemma middleware_returned:
  "graphqlMiddleware_try rt g options request response = (sc, Returned r) \<Longrightarrow>
   graphqlMiddleware rt g options request response = Inr r"
  by (simp add: graphqlMiddleware_def)


lemma respond_keeps_header:
  "k \<noteq> ''Content-Type'' \<Longrightarrow> k \<noteq> ''Content-Length'' \<Longrightarrow>
   res_headers (graphqlMiddleware_respond rt sc response result) k = res_headers response k"
  by (simp add: graphqlMiddleware_respond_def respondWithGraphiQL_def sendResponse_def
      setHeader_def Let_def)

lemma catch_headers:
  "status e = None \<Longrightarrow> headers e = Some [(k, v)] \<Longrightarrow>
   res_headers (fst (graphqlMiddleware_catch response e)) = (res_headers response)(k \<mapsto> v)"
  by (simp add: graphqlMiddleware_catch_def setHeader_def Let_def)

lemma explorer_sent:
  "sends_explorer rt (respondWithGraphiQL rt response opts ps fr) (GraphiQLData ps fr) opts"
  by (simp add: sends_explorer_def respondWithGraphiQL_def sendResponse_def setHeader_def Let_def)





section \<open>The order of the pipeline\<close>

text \<open>
  C3. The claim: on a GET request the executor is invoked only if the requested operation
  is a query. For a GET request whose document holds one mutation, named \<^verbatim>\<open>M\<close>, and which
  asks for an operation of another name, the engine finds no operation, and the executor is
  invoked.
\<close>

theorem get_without_operation_executes:
  "req_method (request_ex ''GET'' [(''query'', ''mutation M { bump }''),
                                   (''operationName'', ''Nope'')] False) = ''GET''
   \<and> getOperationAST engine_ex ''mutation M { bump }'' (Some ''Nope'') = None
   \<and> calls (fst (graphqlMiddleware_try runtime_ex engine_ex
                   (OptionsObject (http_options_ex (Some ()) None))
                   (request_ex ''GET'' [(''query'', ''mutation M { bump }''),
                                        (''operationName'', ''Nope'')] False)
                   response_ex))
     = [CallValidateSchema, CallParse, CallValidate, CallGetOperationAST, CallExecute]"
  by (simp add: http_defs selection_defs example_defs Let_def)

text \<open>
  C3, amended. In both variants the calls are made in the order of the pipeline, each at
  most once, and a call is made only if every earlier step succeeded: the parameters were
  extracted, the schema and the query are not null, and, for a call after the respective
  step, the schema validation returned no error, the parse returned a document, the
  validation of the document returned no error, on a GET request the operation found is not
  a mutation or subscription (it is a query, or none is found), and the executor returned.
  In particular the executor (step 4) is invoked only under these conditions.
\<close>

theorem calls_need_earlier_steps:
  "sorted (map step_index (fst (graphqlWXServer_try decode g woptions)))
   \<and> distinct (fst (graphqlWXServer_try decode g woptions))
   \<and> (c \<in> set (fst (graphqlWXServer_try decode g woptions)) \<longrightarrow>
      (\<exists>ps s q. getGraphQLParams decode (wxParams woptions) = Inr ps
         \<and> schema woptions = Some s \<and> query ps = Some q
         \<and> (0 < step_index c \<longrightarrow> validateSchema g s = [])
         \<and> (1 < step_index c \<longrightarrow>
              (\<exists>d. parseFn g woptions (Source q ''GraphQL request'') = Inr d
                 \<and> (2 < step_index c \<longrightarrow>
                      validateFn g woptions s d (allRules g woptions) = [])))))
   \<and> sorted (map step_index (calls (fst (graphqlMiddleware_try rt g options request response))))
   \<and> distinct (calls (fst (graphqlMiddleware_try rt g options request response)))
   \<and> (c \<in> set (calls (fst (graphqlMiddleware_try rt g options request response))) \<longrightarrow>
      (\<exists>ps od s q. getGraphQLParams_http (JSON_parse rt) request = Inr ps
         \<and> resolveOptions options request response (Some ps) = Inr od
         \<and> schema od = Some s
         \<and> (req_method request = ''GET'' \<or> req_method request = ''POST'')
         \<and> query ps = Some q
         \<and> (0 < step_index c \<longrightarrow> validateSchema g s = [])
         \<and> (1 < step_index c \<longrightarrow>
              (\<exists>d. parseFn g od (Source q ''GraphQL request'') = Inr d
                 \<and> (2 < step_index c \<longrightarrow> validateFn g od s d (allRules g od) = [])
                 \<and> (3 < step_index c \<and> req_method request = ''GET'' \<longrightarrow>
                      getOperationAST g d (operationName ps) = None
                      \<or> getOperationAST g d (operationName ps) = Some OpQuery)
                 \<and> (4 < step_index c \<longrightarrow>
                      (\<exists>result. executeFn g od
                         (ExecutionArgs s d (rootValue od) (contextFor od request)
                            (variables ps) (operationName ps) (fieldResolver od)
                            (typeResolver od)) = Inr result))))))"
  (is "?A \<and> ?B \<and> ?C \<and> ?D \<and> ?E \<and> ?F")
proof -
  have ?A ?B
    unfolding graphqlWXServer_try_def Let_def
    by (auto split: sum.splits option.splits if_splits)
  moreover have ?C
    unfolding graphqlWXServer_try_def Let_def
    by (auto split: sum.splits option.splits if_splits)
  moreover have ?D ?E
    unfolding graphqlMiddleware_try_def Let_def
    by (auto split: sum.splits option.splits if_splits)
  moreover have ?F
    unfolding graphqlMiddleware_try_def Let_def
    by (auto split: sum.splits option.splits if_splits)
  ultimately show ?thesis by blast
qed

theorem calls_need_earlier_steps_witness:
  "CallExecute \<in> set (fst (graphqlWXServer_try JSON_parse_ex engine_ex
       (wx_options_ex (Some ()) (JObj [(''query'', JStr ''{ hello }'')]))))
   \<and> CallExecute \<in> set (calls (fst (graphqlMiddleware_try runtime_ex engine_ex
                   (OptionsObject (http_options_ex (Some ()) None))
                   (request_ex ''GET'' [(''query'', ''{ hello }'')] False) response_ex)))
   \<and> validateSchema engine_ex () = []
   \<and> parse engine_ex (Source ''{ hello }'' ''GraphQL request'') = Inr ''{ hello }''
   \<and> validate engine_ex () ''{ hello }'' [] = []
   \<and> getOperationAST engine_ex ''{ hello }'' None = Some OpQuery"
  using calls_need_earlier_steps [where c = CallExecute and decode = JSON_parse_ex
      and g = engine_ex
      and woptions = "wx_options_ex (Some ()) (JObj [(''query'', JStr ''{ hello }'')])"
      and rt = runtime_ex and options = "OptionsObject (http_options_ex (Some ()) None)"
      and request = "request_ex ''GET'' [(''query'', ''{ hello }'')] False"
      and response = response_ex]
  by (simp add: http_defs wx_defs selection_defs example_defs Let_def)


section \<open>Failures of single steps\<close>

text \<open>
  C4. The claim: whenever the variables are a string that is no valid JSON, extraction
  fails with the failure for invalid JSON, and the overall result holds the message of that
  failure in its errors. The body is parsed before the variables are looked at: when the
  URL holds the variables \<^verbatim>\<open>{\<close> and the body parser throws, extraction fails with the
  parser's error. And when the options function returns no object on the call made after
  the failed extraction, the errors of the response hold the error of the options
  resolution instead.
\<close>

theorem invalid_json_behind_other_failures:
  "JSON_parse_ex ''{'' = Inl (new_Error ''Unexpected end of JSON input'')
   \<and> getGraphQLParams_http JSON_parse_ex
       \<lparr>req_method = ''POST'', urlData = [(''variables'', ''{'')],
        parseBody = Inl (Exn (Some 400) ''POST body sent invalid JSON.''), prefersHtml = False\<rparr>
     = Inl (Error (Some 400) None ''POST body sent invalid JSON.'' None None)
   \<and> getGraphQLParams_http JSON_parse_ex (request_ex ''GET'' [(''variables'', ''{'')] False)
     = Inl (httpError 400 ''Variables are invalid JSON.'' NoDetails)
   \<and> (case graphqlMiddleware runtime_ex engine_ex
             (OptionsFunction (\<lambda>request response ps.
                case ps of None \<Rightarrow> Inr None
                | Some p \<Rightarrow> Inr (Some (http_options_ex (Some ()) None))))
             (request_ex ''GET'' [(''variables'', ''{'')] False) response_ex of
         Inr r \<Rightarrow> sent r | Inl e \<Rightarrow> NotSent)
     = JsonBody \<lparr>fdata = JUndefined,
                 ferrors = Some [''GraphQL middleware option function must return an options object or a promise which will be resolved to an options object.''],
                 fextensions = None\<rparr>"
  by (simp add: http_defs selection_defs example_defs new_Error_def Let_def)

text \<open>
  C4, amended. When the supplied variables value is a string that \<^verbatim>\<open>JSON.parse\<close>
  rejects (and, in the HTTP variant, the body parser returned), extraction fails with the
  failure tagged 400 whose message is \<^verbatim>\<open>Variables are invalid JSON.\<close>; the
  cloud-function handler returns the envelope whose errors are this failure alone; the
  middleware, when the options resolve, sends the envelope whose errors are this failure
  alone, formatted. (The status of the response is left out here.)
\<close>

theorem invalid_variables_json:
  "(get_prop param ''variables'' = Inr (JStr s) \<and> decode s = Inl e \<longrightarrow>
      getGraphQLParams decode param
        = Inl (httpError 400 ''Variables are invalid JSON.'' NoDetails)
      \<and> (wxParams woptions = param \<longrightarrow>
           graphqlWXServer decode g woptions
             = Inr \<lparr>data = JUndefined,
                    errors = Some [httpError 400 ''Variables are invalid JSON.'' NoDetails],
                    extensions = None\<rparr>))
   \<and> (parseBody request = Inr bodyData \<and> url_or_body request bodyData ''variables'' = JStr s
        \<and> JSON_parse rt s = Inl e \<longrightarrow>
      getGraphQLParams_http (JSON_parse rt) request
        = Inl (httpError 400 ''Variables are invalid JSON.'' NoDetails)
      \<and> (resolveOptions options request response None = Inr od \<longrightarrow>
           (\<exists>r. graphqlMiddleware rt g options request response = Inr r
              \<and> sends_json rt r
                   \<lparr>fdata = JUndefined,
                    ferrors = Some [selectFormatErrorFn od (formatError g)
                                     (httpError 400 ''Variables are invalid JSON.'' NoDetails)],
                    fextensions = None\<rparr>)))"
proof (intro conjI impI)
  assume a: "get_prop param ''variables'' = Inr (JStr s) \<and> decode s = Inl e"
  then obtain fs where "param = JObj fs" using get_prop_JStr_obj by blast
  with a show p: "getGraphQLParams decode param
        = Inl (httpError 400 ''Variables are invalid JSON.'' NoDetails)"
    by (simp add: getGraphQLParams_def)
  assume "wxParams woptions = param"
  with p show "graphqlWXServer decode g woptions
             = Inr \<lparr>data = JUndefined,
                    errors = Some [httpError 400 ''Variables are invalid JSON.'' NoDetails],
                    extensions = None\<rparr>"
    by (simp add: graphqlWXServer_def graphqlWXServer_try_def)
next
  assume a: "parseBody request = Inr bodyData
        \<and> url_or_body request bodyData ''variables'' = JStr s \<and> JSON_parse rt s = Inl e"
  then show p: "getGraphQLParams_http (JSON_parse rt) request
        = Inl (httpError 400 ''Variables are invalid JSON.'' NoDetails)"
    by (simp add: getGraphQLParams_http_def Let_def)
  assume "resolveOptions options request response None = Inr od"
  with p show "\<exists>r. graphqlMiddleware rt g options request response = Inr r
              \<and> sends_json rt r
                   \<lparr>fdata = JUndefined,
                    ferrors = Some [selectFormatErrorFn od (formatError g)
                                     (httpError 400 ''Variables are invalid JSON.'' NoDetails)],
                    fextensions = None\<rparr>"
    by (simp add: graphqlMiddleware_def graphqlMiddleware_try_def graphqlMiddleware_catch_def
        graphqlMiddleware_respond_def sends_json_def formatted_def Let_def)
qed


theorem invalid_variables_json_witness:
  "graphqlWXServer JSON_parse_ex engine_ex
       (wx_options_ex (Some ()) (JObj [(''variables'', JStr ''{'')]))
     = Inr \<lparr>data = JUndefined,
            errors = Some [httpError 400 ''Variables are invalid JSON.'' NoDetails],
            extensions = None\<rparr>
   \<and> (case graphqlMiddleware runtime_ex engine_ex (OptionsObject (http_options_ex (Some ()) None))
            (request_ex ''GET'' [(''variables'', ''{'')] False) response_ex of
         Inr r \<Rightarrow> sent r | Inl e \<Rightarrow> NotSent)
     = JsonBody \<lparr>fdata = JUndefined, ferrors = Some [''Variables are invalid JSON.''],
                 fextensions = None\<rparr>"
  using invalid_variables_json [where param = "JObj [(''variables'', JStr ''{'')]"
      and s = "''{''" and decode = JSON_parse_ex
      and e = "new_Error ''Unexpected end of JSON input''" and g = engine_ex
      and woptions = "wx_options_ex (Some ()) (JObj [(''variables'', JStr ''{'')])"
      and request = "request_ex ''GET'' [(''variables'', ''{'')] False" and bodyData = "[]"
      and rt = runtime_ex and options = "OptionsObject (http_options_ex (Some ()) None)"
      and response = response_ex and od = "http_options_ex (Some ()) None"]
  by (simp add: http_defs wx_defs selection_defs example_defs sends_json_def Let_def)

text \<open>
  C5. The claim: every request without a query, for which the explorer is not shown, fails
  with status 400 and the message \<^verbatim>\<open>Must provide query string.\<close> The schema and the
  method are checked first: without a schema, an event without a query fails with the
  failure tagged 500 for the missing schema, and a DELETE request without a query fails
  with the failure tagged 405 for the method.
\<close>

theorem missing_query_behind_other_failures:
  "getGraphQLParams JSON_parse_ex (JObj [])
     = Inr \<lparr>query = None, variables = JNull, operationName = None, raw = JUndefined\<rparr>
   \<and> graphqlWXServer JSON_parse_ex engine_ex (wx_options_ex None (JObj []))
     = Inr \<lparr>data = JUndefined,
            errors = Some [httpError 500 ''GraphQL middleware options must contain a schema.''
                             NoDetails],
            extensions = None\<rparr>
   \<and> getGraphQLParams_http JSON_parse_ex (request_ex ''DELETE'' [] False)
     = Inr \<lparr>query = None, variables = JNull, operationName = None, raw = JBool False\<rparr>
   \<and> snd (graphqlMiddleware_try runtime_ex engine_ex
            (OptionsObject (http_options_ex (Some ()) None))
            (request_ex ''DELETE'' [] False) response_ex)
     = Thrown (httpError 405 ''GraphQL only supports GET and POST requests.''
                 (WithHeaders [(''Allow'', ''GET, POST'')]))"
  by (simp add: http_defs wx_defs selection_defs example_defs Let_def)

text \<open>
  C5, amended. When a schema is supplied (and, in the HTTP variant, the options resolve and
  the method is GET or POST), the extracted query is null and the explorer is not shown, the
  pipeline fails with the failure tagged 400 whose message is
  \<^verbatim>\<open>Must provide query string.\<close>, and the errors returned are this failure alone
  (formatted, in the HTTP variant). (The status of the response is left out here.)
\<close>

theorem missing_query_fails:
  "(getGraphQLParams decode (wxParams woptions) = Inr ps \<and> query ps = None
      \<and> schema woptions \<noteq> None \<longrightarrow>
      graphqlWXServer decode g woptions
        = Inr \<lparr>data = JUndefined,
               errors = Some [httpError 400 ''Must provide query string.'' NoDetails],
               extensions = None\<rparr>)
   \<and> (getGraphQLParams_http (JSON_parse rt) request = Inr ps' \<and> query ps' = None
        \<and> resolveOptions options request response (Some ps') = Inr od
        \<and> schema od \<noteq> None
        \<and> (req_method request = ''GET'' \<or> req_method request = ''POST'')
        \<and> \<not> (canDisplayGraphiQL request ps' \<and> graphiqlSetting od \<noteq> GraphiQLBool False) \<longrightarrow>
      snd (graphqlMiddleware_try rt g options request response)
        = Thrown (httpError 400 ''Must provide query string.'' NoDetails)
      \<and> (\<exists>r. graphqlMiddleware rt g options request response = Inr r
            \<and> sends_json rt r
                 \<lparr>fdata = JUndefined,
                  ferrors = Some [selectFormatErrorFn od (formatError g)
                                   (httpError 400 ''Must provide query string.'' NoDetails)],
                  fextensions = None\<rparr>))"
proof (intro conjI impI)
  assume "getGraphQLParams decode (wxParams woptions) = Inr ps \<and> query ps = None
      \<and> schema woptions \<noteq> None"
  then show "graphqlWXServer decode g woptions
        = Inr \<lparr>data = JUndefined,
               errors = Some [httpError 400 ''Must provide query string.'' NoDetails],
               extensions = None\<rparr>"
    by (auto simp: graphqlWXServer_def graphqlWXServer_try_def Let_def)
next
  assume a: "getGraphQLParams_http (JSON_parse rt) request = Inr ps' \<and> query ps' = None
        \<and> resolveOptions options request response (Some ps') = Inr od
        \<and> schema od \<noteq> None
        \<and> (req_method request = ''GET'' \<or> req_method request = ''POST'')
        \<and> \<not> (canDisplayGraphiQL request ps' \<and> graphiqlSetting od \<noteq> GraphiQLBool False)"
  then show "snd (graphqlMiddleware_try rt g options request response)
        = Thrown (httpError 400 ''Must provide query string.'' NoDetails)"
    by (auto simp: graphqlMiddleware_try_def Let_def)
  from a show "\<exists>r. graphqlMiddleware rt g options request response = Inr r
            \<and> sends_json rt r
                 \<lparr>fdata = JUndefined,
                  ferrors = Some [selectFormatErrorFn od (formatError g)
                                   (httpError 400 ''Must provide query string.'' NoDetails)],
                  fextensions = None\<rparr>"
    by (auto simp: graphqlMiddleware_def graphqlMiddleware_try_def graphqlMiddleware_catch_def
        graphqlMiddleware_respond_def sends_json_def formatted_def Let_def)
qed


theorem missing_query_fails_witness:
  "graphqlWXServer JSON_parse_ex engine_ex (wx_options_ex (Some ()) (JObj []))
     = Inr \<lparr>data = JUndefined,
            errors = Some [httpError 400 ''Must provide query string.'' NoDetails],
            extensions = None\<rparr>
   \<and> (case graphqlMiddleware runtime_ex engine_ex (OptionsObject (http_options_ex (Some ()) None))
            (request_ex ''GET'' [] False) response_ex of
         Inr r \<Rightarrow> sent r | Inl e \<Rightarrow> NotSent)
     = JsonBody \<lparr>fdata = JUndefined, ferrors = Some [''Must provide query string.''],
                 fextensions = None\<rparr>"
  using missing_query_fails [where decode = JSON_parse_ex and g = engine_ex
      and woptions = "wx_options_ex (Some ()) (JObj [])"
      and ps = "\<lparr>query = None, variables = JNull, operationName = None, raw = JUndefined\<rparr>"
      and rt = runtime_ex and options = "OptionsObject (http_options_ex (Some ()) None)"
      and request = "request_ex ''GET'' [] False" and response = response_ex
      and ps' = "\<lparr>query = None, variables = JNull, operationName = None, raw = JBool False\<rparr>"
      and od = "http_options_ex (Some ()) None"]
  by (simp add: http_defs wx_defs selection_defs example_defs sends_json_def Let_def)

text \<open>
  C6. The claim: every GET request whose requested operation is a mutation is answered
  by the explorer or fails with 405 and \<^verbatim>\<open>Allow: POST\<close>. The document is validated
  first: a GET request with a mutation the schema does not have fails with the failure
  tagged 400 for the validation, and no \<^verbatim>\<open>Allow\<close> header is set.
\<close>

theorem get_invalid_mutation_fails_validation:
  "parse engine_ex (Source ''mutation { nope }'' ''GraphQL request'') = Inr ''mutation { nope }''
   \<and> getOperationAST engine_ex ''mutation { nope }'' None = Some OpMutation
   \<and> snd (graphqlMiddleware_try runtime_ex engine_ex
            (OptionsObject (http_options_ex (Some ()) None))
            (request_ex ''GET'' [(''query'', ''mutation { nope }'')] False) response_ex)
       = Thrown (httpError 400 ''GraphQL validation error.''
                   (WithGraphqlErrors [new_Error ''Cannot query field.'']))
   \<and> (case graphqlMiddleware runtime_ex engine_ex
            (OptionsObject (http_options_ex (Some ()) None))
            (request_ex ''GET'' [(''query'', ''mutation { nope }'')] False) response_ex of
         Inr r \<Rightarrow> res_headers r ''Allow'' | Inl e \<Rightarrow> None) = None"
  by (simp add: http_defs selection_defs example_defs Let_def)

lemma http_try_refused:
  assumes "getGraphQLParams_http (JSON_parse rt) request = Inr ps"
    and "resolveOptions options request response (Some ps) = Inr od"
    and "schema od = Some s" and "req_method request = ''GET''" and "query ps = Some q"
    and "validateSchema g s = []"
    and "parseFn g od (Source q ''GraphQL request'') = Inr d"
    and "validateFn g od s d (allRules g od) = []"
    and "getOperationAST g d (operationName ps) = Some operation"
    and "operation \<noteq> OpQuery"
  shows "graphqlMiddleware_try rt g options request response =
    (\<lparr>params = Some ps,
      showGraphiQL = (canDisplayGraphiQL request ps \<and> graphiqlSetting od \<noteq> GraphiQLBool False),
      graphiqlOptions = (case graphiqlSetting od of
                           GraphiQLObject opts \<Rightarrow> Some opts | GraphiQLBool b \<Rightarrow> None),
      formatErrorFn = selectFormatErrorFn od (formatError g),
      pretty = (case prettyOpt od of None \<Rightarrow> False | Some b \<Rightarrow> b),
      calls = [CallValidateSchema, CallParse, CallValidate, CallGetOperationAST]\<rparr>,
     if canDisplayGraphiQL request ps \<and> graphiqlSetting od \<noteq> GraphiQLBool False
     then Returned (respondWithGraphiQL rt response
                      (case graphiqlSetting od of
                         GraphiQLObject opts \<Rightarrow> Some opts | GraphiQLBool b \<Rightarrow> None)
                      (Some ps) None)
     else Thrown (httpError 405
                    (''Can only perform a '' @ operation_name operation
                     @ '' operation from a POST request.'')
                    (WithHeaders [(''Allow'', ''POST'')])))"
  using assms by (simp add: graphqlMiddleware_try_def Let_def)



text \<open>
  C6, amended. For a GET request that passes the earlier steps (parameters extracted,
  options resolved, schema supplied and valid, query supplied, parsed and valid) and whose
  operation is a mutation or a subscription, the executor is not invoked; when the explorer
  is eligible the explorer page is sent, rendered from the parameters and no result, and the
  status is untouched; otherwise the request fails with the failure tagged 405 whose message
  names the kind of the operation and whose header \<^verbatim>\<open>Allow: POST\<close> is set on the
  response, and the errors sent are this failure alone, formatted. (The status of the
  response is left out here.)
\<close>

theorem get_refuses_non_query:
  "getGraphQLParams_http (JSON_parse rt) request = Inr ps
   \<and> resolveOptions options request response (Some ps) = Inr od
   \<and> schema od = Some s \<and> req_method request = ''GET'' \<and> query ps = Some q
   \<and> validateSchema g s = []
   \<and> parseFn g od (Source q ''GraphQL request'') = Inr d
   \<and> validateFn g od s d (allRules g od) = []
   \<and> getOperationAST g d (operationName ps) = Some operation
   \<and> (operation = OpMutation \<or> operation = OpSubscription)
   \<longrightarrow>
     CallExecute \<notin> set (calls (fst (graphqlMiddleware_try rt g options request response)))
     \<and> (if canDisplayGraphiQL request ps \<and> graphiqlSetting od \<noteq> GraphiQLBool False
        then \<exists>r. graphqlMiddleware rt g options request response = Inr r
               \<and> sends_explorer rt r (GraphiQLData (Some ps) None)
                    (case graphiqlSetting od of
                       GraphiQLObject opts \<Rightarrow> Some opts | GraphiQLBool b \<Rightarrow> None)
               \<and> res_statusCode r = res_statusCode response
        else snd (graphqlMiddleware_try rt g options request response)
               = Thrown (httpError 405
                          (''Can only perform a '' @ operation_name operation
                           @ '' operation from a POST request.'')
                          (WithHeaders [(''Allow'', ''POST'')]))
             \<and> (\<exists>r. graphqlMiddleware rt g options request response = Inr r
                   \<and> res_headers r ''Allow'' = Some ''POST''
                   \<and> sends_json rt r
                        \<lparr>fdata = JUndefined,
                         ferrors = Some [selectFormatErrorFn od (formatError g)
                                          (httpError 405
                                             (''Can only perform a '' @ operation_name operation
                                              @ '' operation from a POST request.'')
                                             (WithHeaders [(''Allow'', ''POST'')]))],
                         fextensions = None\<rparr>))"
  (is "?pre \<longrightarrow> ?calls \<and> (if ?eligible then ?explorer else ?refusal)")
proof (intro impI)
  assume a: ?pre
  then have op: "operation \<noteq> OpQuery" by auto
  define e where "e = httpError 405
                          (''Can only perform a '' @ operation_name operation
                           @ '' operation from a POST request.'')
                          (WithHeaders [(''Allow'', ''POST'')])"
  define opts where "opts = (case graphiqlSetting od of
                       GraphiQLObject opts \<Rightarrow> Some opts | GraphiQLBool b \<Rightarrow> None)"
  define sc where "sc = \<lparr>params = Some ps, showGraphiQL = ?eligible, graphiqlOptions = opts,
      formatErrorFn = selectFormatErrorFn od (formatError g),
      pretty = (case prettyOpt od of None \<Rightarrow> False | Some b \<Rightarrow> b),
      calls = [CallValidateSchema, CallParse, CallValidate, CallGetOperationAST]\<rparr>"
  have e: "status e = None" "headers e = Some [(''Allow'', ''POST'')]"
    "envelope e = \<lparr>data = JUndefined, errors = Some [e], extensions = None\<rparr>"
    by (simp_all add: e_def envelope_def)
  have t: "graphqlMiddleware_try rt g options request response =
    (sc, if ?eligible then Returned (respondWithGraphiQL rt response opts (Some ps) None)
         else Thrown e)"
    unfolding sc_def e_def opts_def
    using a op
      http_try_refused [where rt = rt and g = g and options = options and request = request
        and response = response and ps = ps and od = od and s = s and q = q and d = d
        and operation = operation]
    by simp
  have c: ?calls by (simp add: t sc_def)
  have "if ?eligible then ?explorer else ?refusal"
  proof (cases ?eligible)
    case True
    then have "graphqlMiddleware_try rt g options request response
                 = (sc, Returned (respondWithGraphiQL rt response opts (Some ps) None))"
      using t by simp
    from middleware_returned [OF this]
    have "\<exists>r. graphqlMiddleware rt g options request response = Inr r
               \<and> sends_explorer rt r (GraphiQLData (Some ps) None) opts
               \<and> res_statusCode r = res_statusCode response"
      using explorer_sent [of rt response opts "Some ps" None] by simp
    then have ?explorer unfolding opts_def .
    then show ?thesis unfolding if_P [OF True] .
  next
    case False
    then have t': "graphqlMiddleware_try rt g options request response = (sc, Thrown e)"
      using t by simp
    have ns: "\<not> showGraphiQL sc" using False by (simp add: sc_def)
    have f: "formatErrorFn sc = selectFormatErrorFn od (formatError g)" by (simp add: sc_def)
    define r where "r = graphqlMiddleware_respond rt sc
                          (fst (graphqlMiddleware_catch response e)) (envelope e)"
    have m: "graphqlMiddleware rt g options request response = Inr r"
      unfolding r_def by (rule middleware_thrown [OF t'])
    have "sends_json rt r (formatted (formatErrorFn sc) (envelope e))"
      unfolding r_def using respond_sends [of sc rt] ns by simp
    then have sj: "sends_json rt r
            \<lparr>fdata = JUndefined, ferrors = Some [selectFormatErrorFn od (formatError g) e],
             fextensions = None\<rparr>"
      by (simp add: f formatted_def e)
    have hd: "res_headers r ''Allow'' = Some ''POST''"
      unfolding r_def by (simp add: respond_keeps_header catch_headers e)
    have "snd (graphqlMiddleware_try rt g options request response) = Thrown e
             \<and> (\<exists>r. graphqlMiddleware rt g options request response = Inr r
                   \<and> res_headers r ''Allow'' = Some ''POST''
                   \<and> sends_json rt r
                        \<lparr>fdata = JUndefined,
                         ferrors = Some [selectFormatErrorFn od (formatError g) e],
                         fextensions = None\<rparr>)"
      using t' m sj hd by simp
    then have ?refusal unfolding e_def .
    then show ?thesis unfolding if_not_P [OF False] .
  qed
  with c show "?calls \<and> (if ?eligible then ?explorer else ?refusal)" by (rule conjI)
qed


theorem get_refuses_non_query_witness:
  "(case graphqlMiddleware runtime_ex engine_ex
            (OptionsObject (http_options_ex (Some ()) (Some (GraphiQLBool True))))
            (request_ex ''GET'' [(''query'', ''mutation { bump }'')] True) response_ex of
         Inr r \<Rightarrow> sent r | Inl e \<Rightarrow> NotSent) = EndBody ''<!DOCTYPE html>''
   \<and> (case graphqlMiddleware runtime_ex engine_ex
            (OptionsObject (http_options_ex (Some ()) None))
            (request_ex ''GET'' [(''query'', ''mutation { bump }'')] False) response_ex of
         Inr r \<Rightarrow> res_headers r ''Allow'' | Inl e \<Rightarrow> None) = Some ''POST''
   \<and> (case graphqlMiddleware runtime_ex engine_ex
            (OptionsObject (http_options_ex (Some ()) None))
            (request_ex ''GET'' [(''query'', ''mutation { bump }'')] False) response_ex of
         Inr r \<Rightarrow> sent r | Inl e \<Rightarrow> NotSent)
     = JsonBody \<lparr>fdata = JUndefined,
                 ferrors = Some [''Can only perform a mutation operation from a POST request.''],
                 fextensions = None\<rparr>"
  using get_refuses_non_query [where rt = runtime_ex and g = engine_ex
      and options = "OptionsObject (http_options_ex (Some ()) (Some (GraphiQLBool True)))"
      and request = "request_ex ''GET'' [(''query'', ''mutation { bump }'')] True"
      and response = response_ex
      and ps = "\<lparr>query = Some ''mutation { bump }'', variables = JNull, operationName = None,
                 raw = JBool False\<rparr>"
      and od = "http_options_ex (Some ()) (Some (GraphiQLBool True))" and s = "()"
      and q = "''mutation { bump }''" and d = "''mutation { bump }''"
      and operation = OpMutation]
    get_refuses_non_query [where rt = runtime_ex and g = engine_ex
      and options = "OptionsObject (http_options_ex (Some ()) None)"
      and request = "request_ex ''GET'' [(''query'', ''mutation { bump }'')] False"
      and response = response_ex
      and ps = "\<lparr>query = Some ''mutation { bump }'', variables = JNull, operationName = None,
                 raw = JBool False\<rparr>"
      and od = "http_options_ex (Some ()) None" and s = "()"
      and q = "''mutation { bump }''" and d = "''mutation { bump }''"
      and operation = OpMutation]
  by (simp add: http_defs selection_defs example_defs sends_json_def sends_explorer_def Let_def)

end
